theory Spec2Isabelle
  imports Complex_Main "HOL-Library.AList" "HOL-Library.Multiset"
begin

section \<open>Python values, exceptions and builtins\<close>

text \<open>
  The exceptions the source distinguishes. \<open>ValueError\<close> is the one it catches by name
  (an unknown raw user id, a body that is not JSON, a string that \<open>int()\<close> rejects);
  \<open>TypeError\<close> is caught with it around the conversion of \<open>user_id\<close>; every other
  exception, \<open>AttributeError\<close> and \<open>OverflowError\<close> among them, only reaches the
  handler's \<open>except Exception\<close>.
\<close>

datatype py_error = ValueError | TypeError | AttributeError | OverflowError | OtherError

text \<open>
  A Python float: a finite float is the rational number it denotes (every double is one,
  and \<open>-0.0\<close> behaves as \<open>0.0\<close> in all that follows), or an infinity, or NaN. The source
  only tests floats for truth, compares them with the integers 1 and 100 and hands them to
  \<open>int()\<close>; these operations are exact, so no rounding enters.
\<close>

datatype pyfloat = Finite rat | PosInf | NegInf | NaN

text \<open>
  Values decoded from a JSON body or read from the query string. A JSON number without
  fraction and exponent decodes to an integer, any other to a float (\<open>1e999\<close> to
  infinity).
\<close>

datatype pyval =
    PNone
  | PBool bool
  | PInt int
  | PFloat pyfloat
  | PStr string
  | PList "pyval list"
  | PDict "(string \<times> pyval) list"

text \<open>Python truthiness, as \<open>not user_id\<close>, \<open>if req_body:\<close> and \<open>if exclude_seen:\<close> use it.\<close>

fun truthy :: "pyval \<Rightarrow> bool" where
  "truthy PNone = False"
| "truthy (PBool b) = b"
| "truthy (PInt n) = (n \<noteq> 0)"
| "truthy (PFloat f) = (f \<noteq> Finite 0)"
| "truthy (PStr s) = (s \<noteq> [])"
| "truthy (PList xs) = (xs \<noteq> [])"
| "truthy (PDict d) = (d \<noteq> [])"

text \<open>
  The comparison \<open>f > k\<close> of a float with an integer (also written \<open>k < f\<close>): false
  for NaN.
\<close>

fun float_gt :: "pyfloat \<Rightarrow> int \<Rightarrow> bool" where
  "float_gt (Finite q) k = (of_int k < q)"
| "float_gt PosInf k = True"
| "float_gt NegInf k = False"
| "float_gt NaN k = False"

text \<open>
  \<open>int()\<close> on a float: truncation towards zero; \<open>OverflowError\<close> for an infinity,
  \<open>ValueError\<close> for NaN.
\<close>

fun int_of_float :: "pyfloat \<Rightarrow> py_error + int" where
  "int_of_float (Finite q) = Inr (if 0 \<le> q then \<lfloor>q\<rfloor> else \<lceil>q\<rceil>)"
| "int_of_float PosInf = Inl OverflowError"
| "int_of_float NegInf = Inl OverflowError"
| "int_of_float NaN = Inl ValueError"

text \<open>
  \<open>list.sort(key=..., reverse=True)\<close> and \<open>sorted(..., key=..., reverse=True)\<close>: a stable
  sort in descending key order. CPython reverses the list, sorts it stably in ascending
  order and reverses it again, so elements with equal keys keep their original order.
\<close>

definition sort_desc :: "('a \<Rightarrow> 'k::linorder) \<Rightarrow> 'a list \<Rightarrow> 'a list" where
  "sort_desc key xs = rev (sort_key key (rev xs))"

text \<open>
  The slice \<open>xs[:n]\<close>: the first \<open>n\<close> elements for \<open>n \<ge> 0\<close>, all but the last \<open>-n\<close>
  elements for \<open>n < 0\<close>; never an error.
\<close>

definition slice_to :: "int \<Rightarrow> 'a list \<Rightarrow> 'a list" where
  "slice_to n xs = (if 0 \<le> n then take (nat n) xs else take (length xs - nat (- n)) xs)"

section \<open>The trained model\<close>

text \<open>
  The model is an object of the recommender library, not of this repository; it enters as
  a record of the operations \<open>generate_recommendations\<close> calls on it. Items are
  enumerated by inner id (\<open>all_items\<close>). \<open>to_inner_uid\<close> is called on the caller's
  \<open>user_id\<close>: it raises \<open>ValueError\<close> for a raw user id that was not seen in training,
  and may raise otherwise (an unhashable value). \<open>to_raw_iid\<close> and \<open>predict\<close> are called
  only on inner ids and raw ids the trainset itself hands out, where the library defines
  them; they are total here. \<open>ur\<close> and \<open>ir\<close> are the per-user and per-item
  interaction lists (default dictionaries: a missing key is the empty list). \<open>predict\<close>
  gives the estimate \<open>.est\<close>, a float clipped to the rating scale; such floats are
  linearly ordered, and the estimate is taken here in any linear order \<open>'s\<close>. \<open>str_iid\<close> is \<open>str()\<close> on a raw item id.
\<close>

record ('u, 'i, 's) trainset =
  all_items :: "nat list"
  to_inner_uid :: "'u \<Rightarrow> py_error + nat"
  to_raw_iid :: "nat \<Rightarrow> 'i"
  ur :: "nat \<Rightarrow> (nat \<times> 's) list"
  ir :: "nat \<Rightarrow> (nat \<times> 's) list"

record ('u, 'i, 's) model =
  trainset :: "('u, 'i, 's) trainset"
  predict :: "'u \<Rightarrow> 'i \<Rightarrow> 's"
  str_iid :: "'i \<Rightarrow> string"

section \<open>generate_recommendations\<close>

text \<open>
  \<open>seen_items = set([trainset.to_raw_iid(inner_id) for (inner_id, _) in
  trainset.ur[user_inner_id]])\<close>
\<close>

definition seen_items :: "('u, 'i, 's) trainset \<Rightarrow> nat \<Rightarrow> 'i set" where
  "seen_items ts user_inner_id =
     set (map (\<lambda>(inner_id, _). to_raw_iid ts inner_id) (ur ts user_inner_id))"

text \<open>The two list comprehensions that build \<open>candidate_items\<close>.\<close>

definition candidate_items :: "('u, 'i, 's) trainset \<Rightarrow> 'i set \<Rightarrow> bool \<Rightarrow> 'i list" where
  "candidate_items ts seen exclude_seen =
     (if exclude_seen
      then map (to_raw_iid ts)
             (filter (\<lambda>inner_id. to_raw_iid ts inner_id \<notin> seen) (all_items ts))
      else map (to_raw_iid ts) (all_items ts))"

text \<open>
  The dictionary comprehension \<open>{to_raw_iid(inner_id): len(ir[inner_id]) for inner_id in
  all_items}\<close>, as the list of its items in insertion order: a key met again keeps its
  place and takes the new value.
\<close>

definition item_popularity :: "('u, 'i, 's) trainset \<Rightarrow> ('i \<times> nat) list" where
  "item_popularity ts =
     foldl (\<lambda>d inner_id. AList.update (to_raw_iid ts inner_id) (length (ir ts inner_id)) d)
       [] (all_items ts)"

text \<open>
  The function itself. The \<open>try\<close> block succeeds exactly when \<open>to_inner_uid\<close> returns;
  \<open>except ValueError\<close> sends an unknown user to the popularity branch, and any other
  exception of the lookup leaves the function.
\<close>

definition generate_recommendations ::
  "('u, 'i, 's::linorder) model \<Rightarrow> 'u \<Rightarrow> int \<Rightarrow> bool \<Rightarrow> py_error + (string list \<times> bool)" where
  "generate_recommendations model user_id num_recommendations exclude_seen =
     (case to_inner_uid (trainset model) user_id of
        Inr user_inner_id \<Rightarrow>
          (let seen = seen_items (trainset model) user_inner_id;
               cands = candidate_items (trainset model) seen exclude_seen;
               predictions = map (\<lambda>item_id. (item_id, predict model user_id item_id)) cands;
               ranked = sort_desc snd predictions
           in Inr (map (\<lambda>(item_id, _). str_iid model item_id)
                     (slice_to num_recommendations ranked), True))
      | Inl e \<Rightarrow>
          (if e = ValueError
           then (let most_popular = sort_desc snd (item_popularity (trainset model))
                 in Inr (map (\<lambda>(iid, _). str_iid model iid)
                           (slice_to num_recommendations most_popular), False))
           else Inl e))"

text \<open>
  \<open>generate_recommendations\<close> called with a float count, which the clamp lets through
  between 1 and 100: the lookup and the ranking run as above, and the slice
  \<open>[:num_recommendations]\<close> raises \<open>TypeError\<close>.
\<close>

definition generate_recommendations_float_count ::
  "('u, 'i, 's::linorder) model \<Rightarrow> 'u \<Rightarrow> py_error + (string list \<times> bool)" where
  "generate_recommendations_float_count model user_id =
     (case to_inner_uid (trainset model) user_id of
        Inr user_inner_id \<Rightarrow> Inl TypeError
      | Inl e \<Rightarrow> if e = ValueError then Inl TypeError else Inl e)"

section \<open>The HTTP layer\<close>

text \<open>
  A request as the handlers read it: the query parameters (\<open>req.params\<close>, a dictionary
  from strings to strings) and the outcome of \<open>req.get_json()\<close>, which raises
  \<open>ValueError\<close> when the body is not JSON.
\<close>

record request =
  params :: "string \<rightharpoonup> string"
  get_json :: "py_error + pyval"

text \<open>
  A response: the dictionary handed to \<open>json.dumps\<close>, the status code and the headers.
  The three dictionaries the source builds have fixed keys, so each is a constructor with
  the values in the source's order. \<open>str(e)\<close>, the text of an exception, is kept as
  \<open>StrOf e\<close>.
\<close>

datatype message = Text string | StrOf py_error

datatype json_body =
    ErrorBody string message string
  | RecommendationBody pyval string nat "string list"
  | HealthBody string string string

record response =
  body :: json_body
  status_code :: nat
  headers :: "(string \<times> string) list"

text \<open>
  \<open>str.lower()\<close>. Only its comparison with \<open>'true'\<close> is used, and no character
  outside A-Z lowercases to a letter of \<open>'true'\<close>, so the ASCII letters decide it.
\<close>

definition lower_char :: "char \<Rightarrow> char" where
  "lower_char c =
     (let n = (of_char c :: nat) in if 65 \<le> n \<and> n \<le> 90 then char_of (n + 32) else c)"

definition lower :: "string \<Rightarrow> string" where
  "lower s = map lower_char s"

text \<open>\<open>dict.get(key, default)\<close> on a decoded JSON object.\<close>

definition dict_get :: "(string \<times> pyval) list \<Rightarrow> string \<Rightarrow> pyval \<Rightarrow> pyval" where
  "dict_get d key dflt = (case map_of d key of None \<Rightarrow> dflt | Some v \<Rightarrow> v)"

text \<open>
  The builtin \<open>int()\<close> on a value. Its parser of strings is the parameter \<open>int_str\<close>
  (\<open>None\<close> where \<open>int()\<close> raises \<open>ValueError\<close>): the results below hold whatever
  strings Python accepts as integers.
\<close>

fun py_int :: "(string \<Rightarrow> int option) \<Rightarrow> pyval \<Rightarrow> py_error + int" where
  "py_int int_str PNone = Inl TypeError"
| "py_int int_str (PBool b) = Inr (if b then 1 else 0)"
| "py_int int_str (PInt n) = Inr n"
| "py_int int_str (PFloat f) = int_of_float f"
| "py_int int_str (PStr s) = (case int_str s of None \<Rightarrow> Inl ValueError | Some n \<Rightarrow> Inr n)"
| "py_int int_str (PList xs) = Inl TypeError"
| "py_int int_str (PDict d) = Inl TypeError"

text \<open>
  \<open>max(1, min(num_recommendations, 100))\<close>. \<open>min(x, 100)\<close> is 100 if \<open>100 < x\<close> and
  \<open>x\<close> otherwise; \<open>max(1, y)\<close> is \<open>y\<close> if \<open>y > 1\<close> and 1 otherwise. So the result
  is the integer 1 or 100 or the argument itself: an integer, or a float between 1 and 100,
  which is returned as a float. A boolean compares as the integer 0 or 1 and gives 1; NaN
  gives 1; comparing \<open>None\<close>, a string, a list or a dictionary with an integer raises
  \<open>TypeError\<close>.
\<close>

datatype count = IntCount int | FloatCount pyfloat

fun clamp_1_100 :: "pyval \<Rightarrow> py_error + count" where
  "clamp_1_100 (PInt n) = Inr (IntCount (max 1 (min n 100)))"
| "clamp_1_100 (PBool b) = Inr (IntCount (max 1 (min (if b then 1 else 0) 100)))"
| "clamp_1_100 (PFloat f) =
     Inr (if float_gt f 100 then IntCount 100
          else if float_gt f 1 then FloatCount f else IntCount 1)"
| "clamp_1_100 PNone = Inl TypeError"
| "clamp_1_100 (PStr s) = Inl TypeError"
| "clamp_1_100 (PList xs) = Inl TypeError"
| "clamp_1_100 (PDict d) = Inl TypeError"

text \<open>
  \<open>extract_request_params\<close>. The three reads of the query string come first, and
  \<open>int()\<close> may raise there. The body is read only when \<open>user_id\<close> is falsy; inside that
  \<open>try\<close>, \<open>ValueError\<close> is passed over, and \<open>.get\<close> on a truthy value that is not a
  dictionary raises \<open>AttributeError\<close>. The conversion of \<open>user_id\<close> passes over
  \<open>TypeError\<close> and \<open>ValueError\<close> and lets the \<open>OverflowError\<close> of an infinite float
  out. The clamp is outside every \<open>try\<close>.
\<close>

definition extract_request_params ::
  "(string \<Rightarrow> int option) \<Rightarrow> request \<Rightarrow> py_error + (pyval \<times> count \<times> pyval)" where
  "extract_request_params int_str req =
     (let user_id = (case params req ''user_id'' of None \<Rightarrow> PNone | Some s \<Rightarrow> PStr s) in
      case py_int int_str
             (case params req ''num_recommendations'' of None \<Rightarrow> PInt 10 | Some s \<Rightarrow> PStr s) of
        Inl e \<Rightarrow> Inl e
      | Inr n \<Rightarrow>
          (let num_recommendations = PInt n;
               exclude_seen =
                 PBool (lower (case params req ''exclude_seen'' of None \<Rightarrow> ''true'' | Some s \<Rightarrow> s)
                        = ''true'')
           in case (if \<not> truthy user_id
                    then (case get_json req of
                            Inl e \<Rightarrow>
                              if e = ValueError
                              then Inr (user_id, num_recommendations, exclude_seen)
                              else Inl e
                          | Inr req_body \<Rightarrow>
                              if truthy req_body
                              then (case req_body of
                                      PDict d \<Rightarrow>
                                        Inr (dict_get d ''user_id'' PNone,
                                             dict_get d ''num_recommendations'' (PInt 10),
                                             dict_get d ''exclude_seen'' (PBool True))
                                    | _ \<Rightarrow> Inl AttributeError)
                              else Inr (user_id, num_recommendations, exclude_seen))
                    else Inr (user_id, num_recommendations, exclude_seen)) of
                Inl e \<Rightarrow> Inl e
              | Inr (user_id, num_recommendations, exclude_seen) \<Rightarrow>
                  (case (case py_int int_str user_id of
                           Inr k \<Rightarrow> Inr (PInt k)
                         | Inl e \<Rightarrow> if e = TypeError \<or> e = ValueError then Inr user_id else Inl e) of
                     Inl e \<Rightarrow> Inl e
                   | Inr user_id \<Rightarrow>
                       (case clamp_1_100 num_recommendations of
                          Inl e \<Rightarrow> Inl e
                        | Inr num_recommendations \<Rightarrow>
                            Inr (user_id, num_recommendations, exclude_seen)))))"

definition create_error_response :: "string \<Rightarrow> message \<Rightarrow> nat \<Rightarrow> response" where
  "create_error_response error message status =
     \<lparr>body = ErrorBody error message ''error'',
      status_code = status,
      headers = [(''Content-Type'', ''application/json'')]\<rparr>"

text \<open>
  \<open>recommendation_function\<close>. The module-level \<open>MODEL\<close> is \<open>None\<close> when loading failed
  at start-up; the handler reads it and never assigns it. Everything after that check is
  inside \<open>try ... except Exception\<close>. \<open>exclude_seen\<close> reaches
  \<open>generate_recommendations\<close> as the value extracted, where \<open>if exclude_seen:\<close> takes its
  truthiness; the count reaches it as the integer or the float the clamp returned.
\<close>

definition recommendation_function ::
  "(string \<Rightarrow> int option) \<Rightarrow> (pyval, 'i, 's::linorder) model option \<Rightarrow> request \<Rightarrow> response" where
  "recommendation_function int_str MODEL req =
     (case MODEL of
        None \<Rightarrow>
          create_error_response ''Modele non charge''
            (Text ''Le modele n'a pas pu etre initialise au demarrage'') 500
      | Some model \<Rightarrow>
          (case extract_request_params int_str req of
             Inl e \<Rightarrow>
               create_error_response ''Erreur interne du moteur de recommandation'' (StrOf e) 500
           | Inr (user_id, num_recommendations, exclude_seen) \<Rightarrow>
               if \<not> truthy user_id
               then create_error_response ''user_id manquant''
                      (Text ''Veuillez fournir un user_id'') 400
               else (case (case num_recommendations of
                             IntCount n \<Rightarrow>
                               generate_recommendations model user_id n (truthy exclude_seen)
                           | FloatCount f \<Rightarrow>
                               generate_recommendations_float_count model user_id) of
                       Inl e \<Rightarrow>
                         create_error_response ''Erreur interne du moteur de recommandation''
                           (StrOf e) 500
                     | Inr (recommendations, user_exists) \<Rightarrow>
                         \<lparr>body = RecommendationBody user_id
                                   (if user_exists then ''Oui'' else ''Non'')
                                   (length recommendations) recommendations,
                          status_code = 200,
                          headers = [(''Content-Type'', ''application/json; charset=utf-8'')]\<rparr>)))"

definition health_check :: "request \<Rightarrow> response" where
  "health_check req =
     \<lparr>body = HealthBody ''healthy'' ''Recommendation service is running''
               ''Azure Function + Blob Storage Input Binding'',
      status_code = 200,
      headers = [(''Content-Type'', ''application/json'')]\<rparr>"

text \<open>
  The two registrations \<open>@app.route(route="recommendations", methods=["GET", "POST"])\<close> and
  \<open>@app.route(route="health", methods=["GET"])\<close>. A request that matches neither is
  answered by the host, not by this code: \<open>None\<close>.
\<close>

datatype http_method = GET | POST | PUT | DELETE | PATCH | HEAD | OPTIONS

definition app ::
  "(string \<Rightarrow> int option) \<Rightarrow> (pyval, 'i, 's::linorder) model option \<Rightarrow>
     http_method \<Rightarrow> string \<Rightarrow> request \<Rightarrow> response option" where
  "app int_str MODEL method route req =
     (if route = ''recommendations'' \<and> (method = GET \<or> method = POST)
      then Some (recommendation_function int_str MODEL req)
      else if route = ''health'' \<and> method = GET
      then Some (health_check req)
      else None)"

section \<open>A concrete model and a concrete parser\<close>

text \<open>
  The scenario of the specification: users 1 and 2, items A, B and C in this enumeration
  order, user 1 has interacted with A, the estimates for user 1 are 0.9 for B and 0.4 for
  C (and here 0.4 for A as well, a tie), and the items have 5, 9 and 1 training
  interactions. A list or a dictionary is not hashable, so the lookup of such a user id
  raises \<open>TypeError\<close>.
\<close>

definition example_trainset :: "(pyval, string, rat) trainset" where
  "example_trainset =
     \<lparr>all_items = [0, 1, 2],
      to_inner_uid = (\<lambda>u. case u of
                            PList xs \<Rightarrow> Inl TypeError
                          | PDict d \<Rightarrow> Inl TypeError
                          | _ \<Rightarrow> if u = PInt 1 then Inr 0
                                 else if u = PInt 2 then Inr 1 else Inl ValueError),
      to_raw_iid = (\<lambda>i. if i = 0 then ''A'' else if i = 1 then ''B'' else ''C''),
      ur = (\<lambda>k. if k = 0 then [(0, 5)] else if k = 1 then [(1, 4), (2, 2)] else []),
      ir = (\<lambda>i. if i = 0 then replicate 5 (0, 5)
                 else if i = 1 then replicate 9 (1, 4)
                 else if i = 2 then [(1, 2)] else [])\<rparr>"

definition example_model :: "(pyval, string, rat) model" where
  "example_model =
     \<lparr>trainset = example_trainset,
      predict = (\<lambda>u i. if i = ''B'' then 9 / 10 else 4 / 10),
      str_iid = (\<lambda>i. i)\<rparr>"

text \<open>
  A second model, whose raw item ids are of two types: the integer \<open>1\<close> and the string
  \<open>'1'\<close>, two different keys of a dictionary. \<open>str()\<close> gives the decimal digits of an
  integer and leaves a string as it is. Users 1 and 2 have each interacted with one of the
  two items, and every estimate is 0.5.
\<close>

datatype raw_id = IntId int | StrId string

fun str_nat :: "nat \<Rightarrow> string" where
  "str_nat n =
     (if n < 10 then [char_of (48 + n)] else str_nat (n div 10) @ [char_of (48 + n mod 10)])"

definition str_int :: "int \<Rightarrow> string" where
  "str_int i = (if i < 0 then CHR ''-'' # str_nat (nat (- i)) else str_nat (nat i))"

fun str_raw_id :: "raw_id \<Rightarrow> string" where
  "str_raw_id (IntId i) = str_int i"
| "str_raw_id (StrId s) = s"

definition mixed_id_model :: "(pyval, raw_id, rat) model" where
  "mixed_id_model =
     \<lparr>trainset =
        \<lparr>all_items = [0, 1],
         to_inner_uid = (\<lambda>u. case u of
                               PList xs \<Rightarrow> Inl TypeError
                             | PDict d \<Rightarrow> Inl TypeError
                             | _ \<Rightarrow> if u = PInt 1 then Inr 0
                                    else if u = PInt 2 then Inr 1 else Inl ValueError),
         to_raw_iid = (\<lambda>i. if i = 0 then IntId 1 else StrId ''1''),
         ur = (\<lambda>k. if k = 0 then [(0, 5)] else if k = 1 then [(1, 4)] else []),
         ir = (\<lambda>i. if i = 0 then [(0, 5)] else if i = 1 then [(1, 4)] else [])\<rparr>,
      predict = (\<lambda>u i. 1 / 2),
      str_iid = str_raw_id\<rparr>"

text \<open>
  A parser for the examples: an optional minus sign and decimal digits. \<open>int()\<close> agrees
  with it on these strings (and accepts others, such as surrounding blanks).
\<close>

definition digit_of :: "char \<Rightarrow> nat option" where
  "digit_of c =
     (let n = (of_char c :: nat) in if 48 \<le> n \<and> n \<le> 57 then Some (n - 48) else None)"

fun digits_value :: "nat \<Rightarrow> string \<Rightarrow> nat option" where
  "digits_value acc [] = Some acc"
| "digits_value acc (c # cs) =
     (case digit_of c of None \<Rightarrow> None | Some d \<Rightarrow> digits_value (10 * acc + d) cs)"

definition decimal_int :: "string \<Rightarrow> int option" where
  "decimal_int s =
     (case s of
        [] \<Rightarrow> None
      | c # cs \<Rightarrow>
          if c = CHR ''-''
          then (if cs = [] then None else map_option (\<lambda>n. - int n) (digits_value 0 cs))
          else map_option int (digits_value 0 s))"

section \<open>Facts about the builtins\<close>

lemma mset_sort_desc: "mset (sort_desc f xs) = mset xs"
  by (simp add: sort_desc_def)


lemma length_sort_desc: "length (sort_desc f xs) = length xs"
  by (simp add: sort_desc_def)

lemma sorted_sort_desc: "sorted_wrt (\<lambda>a b. f b \<le> f a) (sort_desc f xs)"
proof -
  have "sorted_wrt (\<lambda>a b. f a \<le> f b) (sort_key f (rev xs))"
    using sorted_sort_key [of f "rev xs"] by (simp add: sorted_map)
  then show ?thesis
    by (simp add: sort_desc_def sorted_wrt_rev)
qed

lemma sort_desc_stable:
  "filter (\<lambda>x. key x = v) (sort_desc key xs) = filter (\<lambda>x. key x = v) xs"
proof -
  have "filter (\<lambda>x. key x = v) (sort_desc key xs) =
          rev (filter (\<lambda>x. key x = v) (sort_key key (rev xs)))"
    by (simp add: sort_desc_def rev_filter)
  also have "\<dots> = rev (filter (\<lambda>x. key x = v) (rev xs))"
    by (simp only: sort_key_stable)
  finally show ?thesis
    by (simp add: rev_filter)
qed

lemma insort_key_map: "insort_key f (g x) (map g xs) = map g (insort_key (\<lambda>y. f (g y)) x xs)"
  by (induction xs) auto

lemma sort_key_map: "sort_key f (map g xs) = map g (sort_key (\<lambda>y. f (g y)) xs)"
  by (induction xs) (simp_all add: insort_key_map)

lemma sort_desc_map: "sort_desc f (map g xs) = map g (sort_desc (\<lambda>y. f (g y)) xs)"
  by (simp add: sort_desc_def rev_map sort_key_map)


lemma length_slice_to_le: "length (slice_to n xs) \<le> length xs"
  by (simp add: slice_to_def)

lemma length_slice_to_count: "0 \<le> n \<Longrightarrow> int (length (slice_to n xs)) \<le> n"
  by (simp add: slice_to_def)


lemma map_slice_to: "map f (slice_to n xs) = slice_to n (map f xs)"
  by (simp add: slice_to_def take_map)

lemma distinct_slice_to: "distinct xs \<Longrightarrow> distinct (slice_to n xs)"
  by (simp add: slice_to_def)

lemma distinct_map_sort_desc: "distinct (map g (sort_desc f xs)) = distinct (map g xs)"
proof -
  have "mset (map g (sort_desc f xs)) = mset (map g xs)"
    by (simp add: mset_sort_desc)
  then show ?thesis
    by (rule mset_eq_imp_distinct_iff)
qed

lemma distinct_map_slice_to: "distinct (map g xs) \<Longrightarrow> distinct (map g (slice_to n xs))"
  by (simp add: map_slice_to distinct_slice_to)

section \<open>What generate_recommendations returns\<close>

lemma fst_sort_desc_scored:
  "map fst (sort_desc snd (map (\<lambda>x. (x, h x)) xs)) = sort_desc h xs"
  by (simp add: sort_desc_map o_def)

lemma map_case_fst: "map (\<lambda>(a, _). f a) ps = map f (map fst ps)"
  by (simp add: case_prod_beta)

lemma generate_known:
  assumes "to_inner_uid (trainset m) u = Inr k"
  shows "generate_recommendations m u n ex =
           Inr (map (str_iid m)
                  (slice_to n (sort_desc (predict m u)
                     (candidate_items (trainset m) (seen_items (trainset m) k) ex))), True)"
proof -
  let ?cands = "candidate_items (trainset m) (seen_items (trainset m) k) ex"
  let ?ranked = "sort_desc snd (map (\<lambda>item_id. (item_id, predict m u item_id)) ?cands)"
  have "generate_recommendations m u n ex =
          Inr (map (\<lambda>(item_id, _). str_iid m item_id) (slice_to n ?ranked), True)"
    using assms by (simp add: generate_recommendations_def Let_def)
  also have "map (\<lambda>(item_id, _). str_iid m item_id) (slice_to n ?ranked) =
          map (str_iid m) (slice_to n (map fst ?ranked))"
    by (simp only: map_case_fst map_slice_to)
  also have "map fst ?ranked = sort_desc (predict m u) ?cands"
    by (rule fst_sort_desc_scored)
  finally show ?thesis .
qed

lemma generate_unknown:
  assumes "to_inner_uid (trainset m) u = Inl ValueError"
  shows "generate_recommendations m u n ex =
           Inr (map (str_iid m)
                  (map fst (slice_to n (sort_desc snd (item_popularity (trainset m))))), False)"
  using assms by (simp add: generate_recommendations_def Let_def map_case_fst)

lemma update_fresh: "k \<notin> fst ` set al \<Longrightarrow> AList.update k v al = al @ [(k, v)]"
  by (induction al) auto

lemma foldl_update_fresh:
  "distinct (map f xs) \<Longrightarrow> f ` set xs \<inter> fst ` set acc = {} \<Longrightarrow>
   foldl (\<lambda>d i. AList.update (f i) (h i) d) acc xs = acc @ map (\<lambda>i. (f i, h i)) xs"
proof (induction xs arbitrary: acc)
  case Nil
  then show ?case by simp
next
  case (Cons x xs)
  from Cons.prems have fresh: "f x \<notin> fst ` set acc"
    by auto
  have "f ` set xs \<inter> fst ` set (acc @ [(f x, h x)]) = {}"
    using Cons.prems by auto
  with Cons.prems Cons.IH [of "acc @ [(f x, h x)]"] fresh show ?case
    by (simp add: update_fresh)
qed

lemma item_popularity_distinct:
  "distinct (map (to_raw_iid ts) (all_items ts)) \<Longrightarrow>
   item_popularity ts = map (\<lambda>i. (to_raw_iid ts i, length (ir ts i))) (all_items ts)"
  using foldl_update_fresh [of "to_raw_iid ts" "all_items ts" "[]" "\<lambda>i. length (ir ts i)"]
  by (simp add: item_popularity_def)

lemma length_update_le: "length (AList.update k v al) \<le> Suc (length al)"
  by (induction al) auto

lemma length_foldl_update_le:
  "length (foldl (\<lambda>d i. AList.update (f i) (h i) d) acc xs) \<le> length acc + length xs"
proof (induction xs arbitrary: acc)
  case Nil
  then show ?case by simp
next
  case (Cons x xs)
  have "length (foldl (\<lambda>d i. AList.update (f i) (h i) d) (AList.update (f x) (h x) acc) xs)
          \<le> length (AList.update (f x) (h x) acc) + length xs"
    by (rule Cons.IH)
  also have "\<dots> \<le> Suc (length acc) + length xs"
    using length_update_le [of "f x" "h x" acc] by simp
  finally show ?case by simp
qed

lemma length_item_popularity_le: "length (item_popularity ts) \<le> length (all_items ts)"
  using length_foldl_update_le [of "to_raw_iid ts" "\<lambda>i. length (ir ts i)" "[]" "all_items ts"]
  by (simp add: item_popularity_def)

lemma sorted_desc_take_drop:
  assumes "sorted_wrt (\<lambda>a b. f b \<le> f a) xs"
  shows "\<forall>p\<in>set (take j xs). \<forall>q\<in>set (drop j xs). f q \<le> f p"
proof -
  from assms have "sorted_wrt (\<lambda>a b. f b \<le> f a) (take j xs @ drop j xs)"
    by simp
  then show ?thesis
    unfolding sorted_wrt_append by blast
qed

section \<open>Known users: seen items are excluded\<close>



section \<open>Unknown users: the most popular items\<close>

text \<open>
  C2. For an unknown user (\<open>to_inner_uid\<close> raises \<open>ValueError\<close>) the function
  returns \<open>user_known = False\<close> and the same list for \<open>exclude_seen = True\<close> and
  \<open>exclude_seen = False\<close>. The list is the \<open>str()\<close> of the keys of \<open>top\<close>, where
  \<open>top\<close> and \<open>rest\<close> together are the entries of the popularity table, every entry
  of \<open>rest\<close> has a count no greater than every entry of \<open>top\<close>, and, for a count
  \<open>n \<ge> 0\<close>, \<open>top\<close> has \<open>min n (number of entries)\<close> entries. When the enumeration
  gives each raw id once, the table pairs every enumerated item with the length of its
  interaction list \<open>ir\<close>.
\<close>

theorem unknown_user_most_popular:
  fixes m :: "('u, 'i, 's::linorder) model"
  assumes "to_inner_uid (trainset m) u = Inl ValueError"
  shows "\<exists>top rest.
           generate_recommendations m u n True = Inr (map (str_iid m) (map fst top), False)
         \<and> generate_recommendations m u n False = Inr (map (str_iid m) (map fst top), False)
         \<and> (0 \<le> n \<longrightarrow> length top = min (nat n) (length (item_popularity (trainset m))))
         \<and> mset (top @ rest) = mset (item_popularity (trainset m))
         \<and> (\<forall>p\<in>set top. \<forall>q\<in>set rest. snd q \<le> snd p)
         \<and> (distinct (map (to_raw_iid (trainset m)) (all_items (trainset m))) \<longrightarrow>
              item_popularity (trainset m) =
                map (\<lambda>i. (to_raw_iid (trainset m) i, length (ir (trainset m) i)))
                  (all_items (trainset m)))"
proof -
  let ?ranked = "sort_desc snd (item_popularity (trainset m))"
  let ?j = "if 0 \<le> n then nat n else length ?ranked - nat (- n)"
  let ?top = "take ?j ?ranked"
  let ?rest = "drop ?j ?ranked"
  have top: "slice_to n ?ranked = ?top"
    by (simp add: slice_to_def)
  have r: "generate_recommendations m u n ex = Inr (map (str_iid m) (map fst ?top), False)" for ex
    using generate_unknown [OF assms, of n ex] by (simp only: top)
  have len: "0 \<le> n \<longrightarrow> length ?top = min (nat n) (length (item_popularity (trainset m)))"
    by (simp add: length_sort_desc min.commute)
  have perm: "mset (?top @ ?rest) = mset (item_popularity (trainset m))"
    by (simp add: mset_sort_desc)
  have best: "\<forall>p\<in>set ?top. \<forall>q\<in>set ?rest. snd q \<le> snd p"
    by (rule sorted_desc_take_drop) (rule sorted_sort_desc)
  from r [of True] r [of False] len perm best item_popularity_distinct [of "trainset m"]
  show ?thesis
    by blast
qed

theorem unknown_user_most_popular_witness:
  "to_inner_uid (trainset example_model) (PInt 999) = Inl ValueError
   \<and> (0::int) \<le> 2
   \<and> distinct (map (to_raw_iid (trainset example_model)) (all_items (trainset example_model)))
   \<and> item_popularity (trainset example_model) = [(''A'', 5), (''B'', 9), (''C'', 1)]
   \<and> generate_recommendations example_model (PInt 999) 2 True = Inr ([''B'', ''A''], False)
   \<and> generate_recommendations example_model (PInt 999) 2 False = Inr ([''B'', ''A''], False)"
proof -
  have unknown: "to_inner_uid (trainset example_model) (PInt 999) = Inl ValueError"
    by (simp add: example_model_def example_trainset_def)
  have inj: "distinct (map (to_raw_iid (trainset example_model))
                         (all_items (trainset example_model)))"
    by (simp add: example_model_def example_trainset_def)
  have run: "generate_recommendations example_model (PInt 999) 2 True = Inr ([''B'', ''A''], False)"
    by code_simp
  have ir: "map (\<lambda>i. (to_raw_iid (trainset example_model) i,
                       length (ir (trainset example_model) i)))
              (all_items (trainset example_model)) = [(''A'', 5), (''B'', 9), (''C'', 1)]"
    by (simp add: example_model_def example_trainset_def)
  from unknown_user_most_popular [OF unknown, of 2] inj ir run unknown show ?thesis
    by auto
qed

section \<open>Length and duplicates of the result\<close>

text \<open>
  C3, as stated, fails in its last part: the translation between raw and inner item ids
  can be injective and the returned list still hold a duplicate, because the function
  returns \<open>str()\<close> of the raw ids. With the raw ids \<open>1\<close> (an integer) and \<open>'1'\<close> (a
  string) the list is \<open>['1', '1']\<close>, for a known and for an unknown user.
\<close>

theorem result_duplicates_counterexample:
  "distinct (all_items (trainset mixed_id_model))
   \<and> distinct (map (to_raw_iid (trainset mixed_id_model)) (all_items (trainset mixed_id_model)))
   \<and> to_inner_uid (trainset mixed_id_model) (PInt 1) = Inr 0
   \<and> generate_recommendations mixed_id_model (PInt 1) 2 False = Inr ([''1'', ''1''], True)
   \<and> to_inner_uid (trainset mixed_id_model) (PInt 999) = Inl ValueError
   \<and> generate_recommendations mixed_id_model (PInt 999) 2 True = Inr ([''1'', ''1''], False)
   \<and> \<not> distinct [''1'', ''1'']"
proof -
  have a: "distinct (all_items (trainset mixed_id_model))"
    by (simp add: mixed_id_model_def)
  have b: "distinct (map (to_raw_iid (trainset mixed_id_model))
                       (all_items (trainset mixed_id_model)))"
    by (simp add: mixed_id_model_def)
  have c: "to_inner_uid (trainset mixed_id_model) (PInt 1) = Inr 0"
    by (simp add: mixed_id_model_def)
  have d: "generate_recommendations mixed_id_model (PInt 1) 2 False = Inr ([''1'', ''1''], True)"
    by code_simp
  have e: "to_inner_uid (trainset mixed_id_model) (PInt 999) = Inl ValueError"
    by (simp add: mixed_id_model_def)
  have f: "generate_recommendations mixed_id_model (PInt 999) 2 True = Inr ([''1'', ''1''], False)"
    by code_simp
  from a b c d e f show ?thesis
    by simp
qed

text \<open>
  C3, amended. Whenever the user lookup returns or raises \<open>ValueError\<close> (a known or an
  unknown user), for either value of \<open>exclude_seen\<close> and a count \<open>n \<ge> 0\<close>, the function
  returns a list of at most \<open>n\<close> identifiers and of at most as many identifiers as the
  eligible pool has items (the unseen items of a known user when \<open>exclude_seen\<close> holds, all
  items otherwise). When the translation from the enumerated inner ids to the returned
  identifiers, \<open>str(to_raw_iid(i))\<close>, is injective, the list has no duplicates.
\<close>

theorem result_bounded_and_distinct:
  fixes m :: "('u, 'i, 's::linorder) model"
  assumes lookup: "(\<exists>k. to_inner_uid (trainset m) u = Inr k)
                   \<or> to_inner_uid (trainset m) u = Inl ValueError"
    and count: "0 \<le> n"
  shows "\<exists>items known.
           generate_recommendations m u n exclude_seen = Inr (items, known)
         \<and> int (length items) \<le> n
         \<and> length items \<le>
             length (case to_inner_uid (trainset m) u of
                       Inr k \<Rightarrow>
                         if exclude_seen
                         then filter (\<lambda>i. to_raw_iid (trainset m) i \<notin> seen_items (trainset m) k)
                                (all_items (trainset m))
                         else all_items (trainset m)
                     | Inl e \<Rightarrow> all_items (trainset m))
         \<and> (distinct (map (\<lambda>i. str_iid m (to_raw_iid (trainset m) i)) (all_items (trainset m)))
              \<longrightarrow> distinct items)"
proof -
  let ?ts = "trainset m"
  let ?inj = "distinct (map (\<lambda>i. str_iid m (to_raw_iid ?ts i)) (all_items ?ts))"
  from lookup show ?thesis
  proof
    assume "\<exists>k. to_inner_uid ?ts u = Inr k"
    then obtain k where k: "to_inner_uid ?ts u = Inr k" ..
    let ?inner = "if exclude_seen
                  then filter (\<lambda>i. to_raw_iid ?ts i \<notin> seen_items ?ts k) (all_items ?ts)
                  else all_items ?ts"
    let ?cands = "candidate_items ?ts (seen_items ?ts k) exclude_seen"
    let ?out = "slice_to n (sort_desc (predict m u) ?cands)"
    have cands: "?cands = map (to_raw_iid ?ts) ?inner"
      by (simp add: candidate_items_def)
    have d: "distinct (map (str_iid m) ?out)" if inj: ?inj
    proof -
      have "distinct (map (\<lambda>i. str_iid m (to_raw_iid ?ts i)) ?inner)"
        using inj by (simp add: distinct_map_filter)
      then have "distinct (map (str_iid m) ?cands)"
        by (simp add: cands o_def)
      then show ?thesis
        by (intro distinct_map_slice_to) (simp add: distinct_map_sort_desc)
    qed
    have l1: "int (length (map (str_iid m) ?out)) \<le> n"
      using length_slice_to_count [OF count] by simp
    have "length ?out \<le> length ?cands"
      using length_slice_to_le [of n "sort_desc (predict m u) ?cands"]
      by (simp add: length_sort_desc)
    then have l2: "length (map (str_iid m) ?out) \<le> length ?inner"
      by (simp add: cands)
    from generate_known [OF k, of n exclude_seen] d l1 l2 k show ?thesis
      by (cases exclude_seen) auto
  next
    assume unk: "to_inner_uid ?ts u = Inl ValueError"
    let ?ranked = "sort_desc snd (item_popularity ?ts)"
    let ?out = "map fst (slice_to n ?ranked)"
    have d: "distinct (map (str_iid m) ?out)" if inj: ?inj
    proof -
      let ?pop = "map (\<lambda>i. (to_raw_iid ?ts i, length (ir ?ts i))) (all_items ?ts)"
      from inj have "distinct (map (to_raw_iid ?ts) (all_items ?ts))"
        by (simp add: distinct_map inj_on_def)
      then have pop: "item_popularity ?ts = ?pop"
        by (rule item_popularity_distinct)
      have "distinct (map (\<lambda>p. str_iid m (fst p)) ?pop)"
        using inj by (simp add: o_def)
      then have "distinct (map (\<lambda>p. str_iid m (fst p)) (slice_to n (sort_desc snd ?pop)))"
        by (intro distinct_map_slice_to) (simp only: distinct_map_sort_desc)
      then show ?thesis
        by (simp add: o_def pop)
    qed
    have l1: "int (length (map (str_iid m) ?out)) \<le> n"
      using length_slice_to_count [OF count] by simp
    have "length (slice_to n ?ranked) \<le> length (item_popularity ?ts)"
      using length_slice_to_le [of n ?ranked] by (simp add: length_sort_desc)
    with length_item_popularity_le [of ?ts]
    have l2: "length (map (str_iid m) ?out) \<le> length (all_items ?ts)"
      by simp
    from generate_unknown [OF unk, of n exclude_seen] d l1 l2 unk show ?thesis
      by auto
  qed
qed

theorem result_bounded_and_distinct_witness:
  "(\<exists>k. to_inner_uid (trainset example_model) (PInt 1) = Inr k)
   \<and> (0::int) \<le> 2
   \<and> distinct (map (\<lambda>i. str_iid example_model (to_raw_iid (trainset example_model) i))
                 (all_items (trainset example_model)))
   \<and> generate_recommendations example_model (PInt 1) 2 True = Inr ([''B'', ''C''], True)
   \<and> (\<exists>items known.
          generate_recommendations example_model (PInt 1) 2 True = Inr (items, known)
        \<and> int (length items) \<le> 2 \<and> distinct items)"
proof -
  have known: "\<exists>k. to_inner_uid (trainset example_model) (PInt 1) = Inr k"
    by (simp add: example_model_def example_trainset_def)
  have inj: "distinct (map (\<lambda>i. str_iid example_model (to_raw_iid (trainset example_model) i))
                         (all_items (trainset example_model)))"
    by (simp add: example_model_def example_trainset_def)
  have run: "generate_recommendations example_model (PInt 1) 2 True = Inr ([''B'', ''C''], True)"
    by code_simp
  have "\<exists>items known.
          generate_recommendations example_model (PInt 1) 2 True = Inr (items, known)
        \<and> int (length items) \<le> 2 \<and> distinct items"
    using result_bounded_and_distinct [OF disjI1 [OF known], of 2 True] inj by auto
  with known inj run show ?thesis
    by simp
qed

section \<open>Order of the rankings\<close>

text \<open>
  C4. In both branches the returned identifiers are those of \<open>slice_to n js\<close>, where the
  ranking \<open>js\<close> lists the candidate inner ids (a known user's candidates, or all items for
  an unknown user) in descending order of score (the predicted estimate, or the number of
  training interactions), and for every score value the candidates with that score stand
  in \<open>js\<close> in the order in which \<open>all_items\<close> enumerates them. For the popularity
  ranking this is stated for an enumeration that gives each raw id once, which is what
  makes the dictionary hold one entry per enumerated item.
\<close>

theorem rankings_descending_and_stable:
  fixes m :: "('u, 'i, 's::linorder) model"
  shows "(to_inner_uid (trainset m) u = Inr k \<longrightarrow>
            (\<exists>js. generate_recommendations m u n exclude_seen =
                     Inr (map (\<lambda>j. str_iid m (to_raw_iid (trainset m) j)) (slice_to n js), True)
                 \<and> mset js =
                     mset (filter (\<lambda>j. exclude_seen \<longrightarrow>
                                     to_raw_iid (trainset m) j \<notin> seen_items (trainset m) k)
                             (all_items (trainset m)))
                 \<and> sorted_wrt (\<lambda>i j. predict m u (to_raw_iid (trainset m) j)
                                       \<le> predict m u (to_raw_iid (trainset m) i)) js
                 \<and> (\<forall>s. filter (\<lambda>j. predict m u (to_raw_iid (trainset m) j) = s) js =
                          filter (\<lambda>j. predict m u (to_raw_iid (trainset m) j) = s)
                            (filter (\<lambda>j. exclude_seen \<longrightarrow>
                                       to_raw_iid (trainset m) j \<notin> seen_items (trainset m) k)
                               (all_items (trainset m))))))
       \<and> (to_inner_uid (trainset m) u = Inl ValueError \<longrightarrow>
            distinct (map (to_raw_iid (trainset m)) (all_items (trainset m))) \<longrightarrow>
            (\<exists>js. generate_recommendations m u n exclude_seen =
                     Inr (map (\<lambda>j. str_iid m (to_raw_iid (trainset m) j)) (slice_to n js), False)
                 \<and> mset js = mset (all_items (trainset m))
                 \<and> sorted_wrt (\<lambda>i j. length (ir (trainset m) j) \<le> length (ir (trainset m) i)) js
                 \<and> (\<forall>c. filter (\<lambda>j. length (ir (trainset m) j) = c) js =
                          filter (\<lambda>j. length (ir (trainset m) j) = c) (all_items (trainset m)))))"
proof (intro conjI impI)
  let ?ts = "trainset m"
  let ?score = "\<lambda>j. predict m u (to_raw_iid ?ts j)"
  let ?inner = "filter (\<lambda>j. exclude_seen \<longrightarrow> to_raw_iid ?ts j \<notin> seen_items ?ts k) (all_items ?ts)"
  let ?js = "sort_desc ?score ?inner"
  assume k: "to_inner_uid ?ts u = Inr k"
  have cands: "candidate_items ?ts (seen_items ?ts k) exclude_seen = map (to_raw_iid ?ts) ?inner"
    by (simp add: candidate_items_def)
  have "generate_recommendations m u n exclude_seen =
          Inr (map (str_iid m) (slice_to n (map (to_raw_iid ?ts) ?js)), True)"
    using generate_known [OF k, of n exclude_seen] by (simp only: cands sort_desc_map)
  then have res: "generate_recommendations m u n exclude_seen =
          Inr (map (\<lambda>j. str_iid m (to_raw_iid ?ts j)) (slice_to n ?js), True)"
    by (simp add: map_slice_to [symmetric] o_def)
  have "mset ?js = mset ?inner"
    by (rule mset_sort_desc)
  moreover have "sorted_wrt (\<lambda>i j. ?score j \<le> ?score i) ?js"
    by (rule sorted_sort_desc)
  moreover have "\<forall>s. filter (\<lambda>j. ?score j = s) ?js = filter (\<lambda>j. ?score j = s) ?inner"
    by (simp only: sort_desc_stable) simp
  ultimately show "\<exists>js. generate_recommendations m u n exclude_seen =
                     Inr (map (\<lambda>j. str_iid m (to_raw_iid ?ts j)) (slice_to n js), True)
                 \<and> mset js = mset ?inner
                 \<and> sorted_wrt (\<lambda>i j. ?score j \<le> ?score i) js
                 \<and> (\<forall>s. filter (\<lambda>j. ?score j = s) js = filter (\<lambda>j. ?score j = s) ?inner)"
    using res by blast
next
  let ?ts = "trainset m"
  let ?count = "\<lambda>j. length (ir ?ts j)"
  let ?js = "sort_desc ?count (all_items ?ts)"
  assume unk: "to_inner_uid ?ts u = Inl ValueError"
    and inj: "distinct (map (to_raw_iid ?ts) (all_items ?ts))"
  have pop: "item_popularity ?ts = map (\<lambda>j. (to_raw_iid ?ts j, ?count j)) (all_items ?ts)"
    using inj by (rule item_popularity_distinct)
  have "sort_desc snd (item_popularity ?ts) = map (\<lambda>j. (to_raw_iid ?ts j, ?count j)) ?js"
    by (simp add: pop sort_desc_map)
  then have "generate_recommendations m u n exclude_seen =
          Inr (map (str_iid m) (map fst (slice_to n (map (\<lambda>j. (to_raw_iid ?ts j, ?count j)) ?js))), False)"
    using generate_unknown [OF unk, of n exclude_seen] by simp
  then have res: "generate_recommendations m u n exclude_seen =
          Inr (map (\<lambda>j. str_iid m (to_raw_iid ?ts j)) (slice_to n ?js), False)"
    by (simp add: map_slice_to [symmetric] o_def)
  have "mset ?js = mset (all_items ?ts)"
    by (rule mset_sort_desc)
  moreover have "sorted_wrt (\<lambda>i j. ?count j \<le> ?count i) ?js"
    by (rule sorted_sort_desc)
  moreover have "\<forall>c. filter (\<lambda>j. ?count j = c) ?js = filter (\<lambda>j. ?count j = c) (all_items ?ts)"
    by (simp only: sort_desc_stable) simp
  ultimately show "\<exists>js. generate_recommendations m u n exclude_seen =
                     Inr (map (\<lambda>j. str_iid m (to_raw_iid ?ts j)) (slice_to n js), False)
                 \<and> mset js = mset (all_items ?ts)
                 \<and> sorted_wrt (\<lambda>i j. ?count j \<le> ?count i) js
                 \<and> (\<forall>c. filter (\<lambda>j. ?count j = c) js = filter (\<lambda>j. ?count j = c) (all_items ?ts))"
    using res by blast
qed

theorem rankings_descending_and_stable_witness:
  "to_inner_uid (trainset example_model) (PInt 1) = Inr 0
   \<and> predict example_model (PInt 1) ''A'' = predict example_model (PInt 1) ''C''
   \<and> generate_recommendations example_model (PInt 1) 3 False = Inr ([''B'', ''A'', ''C''], True)
   \<and> to_inner_uid (trainset example_model) (PInt 999) = Inl ValueError
   \<and> distinct (map (to_raw_iid (trainset example_model)) (all_items (trainset example_model)))
   \<and> generate_recommendations example_model (PInt 999) 3 True = Inr ([''B'', ''A'', ''C''], False)
   \<and> (\<exists>js. generate_recommendations example_model (PInt 1) 3 False =
               Inr (map (\<lambda>j. str_iid example_model (to_raw_iid (trainset example_model) j))
                      (slice_to 3 js), True)
           \<and> mset js = mset (all_items (trainset example_model)))
   \<and> (\<exists>js. generate_recommendations example_model (PInt 999) 3 True =
               Inr (map (\<lambda>j. str_iid example_model (to_raw_iid (trainset example_model) j))
                      (slice_to 3 js), False)
           \<and> mset js = mset (all_items (trainset example_model)))"
proof -
  have known: "to_inner_uid (trainset example_model) (PInt 1) = Inr 0"
    by (simp add: example_model_def example_trainset_def)
  have tie: "predict example_model (PInt 1) ''A'' = predict example_model (PInt 1) ''C''"
    by (simp add: example_model_def)
  have run1: "generate_recommendations example_model (PInt 1) 3 False =
                Inr ([''B'', ''A'', ''C''], True)"
    by code_simp
  have unknown: "to_inner_uid (trainset example_model) (PInt 999) = Inl ValueError"
    by (simp add: example_model_def example_trainset_def)
  have inj: "distinct (map (to_raw_iid (trainset example_model))
                         (all_items (trainset example_model)))"
    by (simp add: example_model_def example_trainset_def)
  have run2: "generate_recommendations example_model (PInt 999) 3 True =
                Inr ([''B'', ''A'', ''C''], False)"
    by code_simp
  have a: "\<exists>js. generate_recommendations example_model (PInt 1) 3 False =
               Inr (map (\<lambda>j. str_iid example_model (to_raw_iid (trainset example_model) j))
                      (slice_to 3 js), True)
           \<and> mset js = mset (all_items (trainset example_model))"
    using rankings_descending_and_stable [of example_model "PInt 1" 0 3 False] known
    by auto
  have b: "\<exists>js. generate_recommendations example_model (PInt 999) 3 True =
               Inr (map (\<lambda>j. str_iid example_model (to_raw_iid (trainset example_model) j))
                      (slice_to 3 js), False)
           \<and> mset js = mset (all_items (trainset example_model))"
    using rankings_descending_and_stable [of example_model "PInt 999" 0 3 True] unknown inj
    by auto
  from known tie run1 unknown inj run2 a b show ?thesis
    by simp
qed

section \<open>Facts about parameter extraction\<close>

lemma py_int_error:
  "py_int int_str v = Inl e \<Longrightarrow> e = TypeError \<or> e = ValueError \<or> e = OverflowError"
  by (cases v) (auto split: option.splits elim: int_of_float.elims)

lemma py_int_overflow:
  "py_int int_str v = Inl OverflowError \<longleftrightarrow> v = PFloat PosInf \<or> v = PFloat NegInf"
  by (cases v) (auto split: option.splits elim: int_of_float.elims)

text \<open>The conversion of \<open>user_id\<close>: only the \<open>OverflowError\<close> of an infinite float leaves it.\<close>

lemma coerce_user_id:
  "(case py_int int_str v of
      Inr k \<Rightarrow> Inr (PInt k)
    | Inl e \<Rightarrow> if e = TypeError \<or> e = ValueError then Inr v else Inl e) =
   (if v = PFloat PosInf \<or> v = PFloat NegInf then Inl OverflowError
    else Inr (case py_int int_str v of Inr k \<Rightarrow> PInt k | Inl e \<Rightarrow> v))"
proof (cases "py_int int_str v")
  case (Inl e)
  with py_int_error [of int_str v e] py_int_overflow [of int_str v] show ?thesis
    by auto
next
  case (Inr k)
  with py_int_overflow [of int_str v] show ?thesis
    by auto
qed

lemma extract_with_query_user_id:
  assumes "params req ''user_id'' = Some s" and "s \<noteq> []"
  shows "extract_request_params int_str req =
           (case (case params req ''num_recommendations'' of
                    None \<Rightarrow> Some 10
                  | Some t \<Rightarrow> int_str t) of
              None \<Rightarrow> Inl ValueError
            | Some n \<Rightarrow>
                Inr (case int_str s of None \<Rightarrow> PStr s | Some k \<Rightarrow> PInt k,
                     IntCount (max 1 (min n 100)),
                     PBool (lower (case params req ''exclude_seen'' of
                                     None \<Rightarrow> ''true''
                                   | Some x \<Rightarrow> x) = ''true'')))"
  using assms
  by (simp add: extract_request_params_def Let_def split: option.splits)


lemma clamp_1_100_range:
  "clamp_1_100 v = Inr c \<Longrightarrow>
     (\<exists>n. c = IntCount n \<and> 1 \<le> n \<and> n \<le> 100)
   \<or> (\<exists>f. c = FloatCount f \<and> float_gt f 1 \<and> \<not> float_gt f 100)"
  by (cases v) (auto split: if_splits)

lemma extracted_count_in_range:
  assumes "extract_request_params int_str req = Inr (uid, c, ex)"
  shows "(\<exists>n. c = IntCount n \<and> 1 \<le> n \<and> n \<le> 100)
       \<or> (\<exists>f. c = FloatCount f \<and> float_gt f 1 \<and> \<not> float_gt f 100)"
proof -
  from assms have "\<exists>v. clamp_1_100 v = Inr c"
    by (auto simp: extract_request_params_def Let_def simp del: clamp_1_100.simps
             split: sum.splits if_splits prod.splits)
  then obtain v where "clamp_1_100 v = Inr c" ..
  then show ?thesis
    by (rule clamp_1_100_range)
qed



section \<open>Missing user_id and unavailable model\<close>




section \<open>Default and clamp of num_recommendations\<close>

text \<open>
  C6, as stated, fails when the count is supplied in the query string and \<open>user_id\<close> in
  a JSON body: the body is read for all three parameters, and the count 50 of the query
  string is replaced by the body's default 10. It also fails when the body's \<open>user_id\<close>
  is an infinite float (the JSON number \<open>1e999\<close>): \<open>int()\<close> raises \<open>OverflowError\<close>,
  which the conversion of \<open>user_id\<close> does not catch, and no count is returned.
\<close>

theorem num_recommendations_counterexample:
  "params \<lparr>params = [''num_recommendations'' \<mapsto> ''50''],
           get_json = Inr (PDict [(''user_id'', PInt 5)])\<rparr> ''num_recommendations'' = Some ''50''
   \<and> decimal_int ''50'' = Some 50
   \<and> max 1 (min 50 100) = (50::int)
   \<and> extract_request_params decimal_int
        \<lparr>params = [''num_recommendations'' \<mapsto> ''50''],
         get_json = Inr (PDict [(''user_id'', PInt 5)])\<rparr> =
      Inr (PInt 5, IntCount 10, PBool True)
   \<and> extract_request_params decimal_int
        \<lparr>params = Map.empty,
         get_json = Inr (PDict [(''user_id'', PFloat PosInf),
                                (''num_recommendations'', PInt 5)])\<rparr> =
      Inl OverflowError"
proof -
  have p: "decimal_int ''50'' = Some 50"
    by code_simp
  have e: "extract_request_params decimal_int
        \<lparr>params = [''num_recommendations'' \<mapsto> ''50''],
         get_json = Inr (PDict [(''user_id'', PInt 5)])\<rparr> =
      Inr (PInt 5, IntCount 10, PBool True)"
    by code_simp
  have o: "extract_request_params decimal_int
        \<lparr>params = Map.empty,
         get_json = Inr (PDict [(''user_id'', PFloat PosInf),
                                (''num_recommendations'', PInt 5)])\<rparr> =
      Inl OverflowError"
    by code_simp
  from p e o show ?thesis
    by simp
qed

text \<open>
  C6, amended. The parameters are read from the query string when it carries a non-empty
  \<open>user_id\<close>, when the body is not JSON, or when the decoded body is falsy; there an
  absent \<open>num_recommendations\<close> gives 10 and an integer \<open>n\<close> gives \<open>n\<close> clamped into
  [1, 100]. They are read from the body when the query string has no or an empty
  \<open>user_id\<close>, its \<open>num_recommendations\<close> (if any) is an integer, and the body is a
  non-empty JSON object whose \<open>user_id\<close> is not an infinite float; there an absent
  \<open>num_recommendations\<close> field gives 10 and an integer field \<open>n\<close> gives \<open>n\<close> clamped
  into [1, 100].
\<close>

theorem num_recommendations_default_and_clamp:
  "(((\<exists>s. params req ''user_id'' = Some s \<and> s \<noteq> [])
      \<or> get_json req = Inl ValueError
      \<or> (\<exists>b. get_json req = Inr b \<and> \<not> truthy b)) \<longrightarrow>
      (params req ''num_recommendations'' = None \<longrightarrow>
         (\<exists>uid ex. extract_request_params int_str req = Inr (uid, IntCount 10, ex)))
    \<and> (\<forall>t n. params req ''num_recommendations'' = Some t \<longrightarrow> int_str t = Some n \<longrightarrow>
         (\<exists>uid ex. extract_request_params int_str req =
                      Inr (uid, IntCount (max 1 (min n 100)), ex))))
 \<and> ((params req ''user_id'' = None \<or> params req ''user_id'' = Some []) \<longrightarrow>
     get_json req = Inr (PDict d) \<longrightarrow> d \<noteq> [] \<longrightarrow>
     map_of d ''user_id'' \<noteq> Some (PFloat PosInf) \<longrightarrow>
     map_of d ''user_id'' \<noteq> Some (PFloat NegInf) \<longrightarrow>
     (params req ''num_recommendations'' = None
        \<or> (\<exists>t k. params req ''num_recommendations'' = Some t \<and> int_str t = Some k)) \<longrightarrow>
      (map_of d ''num_recommendations'' = None \<longrightarrow>
         (\<exists>uid ex. extract_request_params int_str req = Inr (uid, IntCount 10, ex)))
    \<and> (\<forall>n. map_of d ''num_recommendations'' = Some (PInt n) \<longrightarrow>
         (\<exists>uid ex. extract_request_params int_str req =
                      Inr (uid, IntCount (max 1 (min n 100)), ex))))"
proof (intro conjI impI allI)
  assume q: "(\<exists>s. params req ''user_id'' = Some s \<and> s \<noteq> [])
      \<or> get_json req = Inl ValueError
      \<or> (\<exists>b. get_json req = Inr b \<and> \<not> truthy b)"
    and "params req ''num_recommendations'' = None"
  then show "\<exists>uid ex. extract_request_params int_str req = Inr (uid, IntCount 10, ex)"
    by (auto simp: extract_request_params_def Let_def coerce_user_id split: option.splits)
next
  fix t n
  assume q: "(\<exists>s. params req ''user_id'' = Some s \<and> s \<noteq> [])
      \<or> get_json req = Inl ValueError
      \<or> (\<exists>b. get_json req = Inr b \<and> \<not> truthy b)"
    and "params req ''num_recommendations'' = Some t" and "int_str t = Some n"
  then show "\<exists>uid ex. extract_request_params int_str req =
                       Inr (uid, IntCount (max 1 (min n 100)), ex)"
    by (auto simp: extract_request_params_def Let_def coerce_user_id split: option.splits)
next
  assume "params req ''user_id'' = None \<or> params req ''user_id'' = Some []"
    and "get_json req = Inr (PDict d)" and "d \<noteq> []"
    and "map_of d ''user_id'' \<noteq> Some (PFloat PosInf)"
    and "map_of d ''user_id'' \<noteq> Some (PFloat NegInf)"
    and "params req ''num_recommendations'' = None
        \<or> (\<exists>t k. params req ''num_recommendations'' = Some t \<and> int_str t = Some k)"
    and "map_of d ''num_recommendations'' = None"
  then show "\<exists>uid ex. extract_request_params int_str req = Inr (uid, IntCount 10, ex)"
    by (auto simp: extract_request_params_def Let_def coerce_user_id dict_get_def
             split: option.splits)
next
  fix n
  assume "params req ''user_id'' = None \<or> params req ''user_id'' = Some []"
    and "get_json req = Inr (PDict d)" and "d \<noteq> []"
    and "map_of d ''user_id'' \<noteq> Some (PFloat PosInf)"
    and "map_of d ''user_id'' \<noteq> Some (PFloat NegInf)"
    and "params req ''num_recommendations'' = None
        \<or> (\<exists>t k. params req ''num_recommendations'' = Some t \<and> int_str t = Some k)"
    and "map_of d ''num_recommendations'' = Some (PInt n)"
  then show "\<exists>uid ex. extract_request_params int_str req =
                       Inr (uid, IntCount (max 1 (min n 100)), ex)"
    by (auto simp: extract_request_params_def Let_def coerce_user_id dict_get_def
             split: option.splits)
qed

theorem num_recommendations_default_and_clamp_witness:
  "params \<lparr>params = [''user_id'' \<mapsto> ''1''], get_json = Inl ValueError\<rparr> ''user_id'' = Some ''1''
   \<and> extract_request_params decimal_int
        \<lparr>params = [''user_id'' \<mapsto> ''1''], get_json = Inl ValueError\<rparr> =
      Inr (PInt 1, IntCount 10, PBool True)
   \<and> decimal_int ''500'' = Some 500
   \<and> extract_request_params decimal_int
        \<lparr>params = [''user_id'' \<mapsto> ''1'', ''num_recommendations'' \<mapsto> ''500''],
         get_json = Inl ValueError\<rparr> = Inr (PInt 1, IntCount 100, PBool True)
   \<and> decimal_int ''-3'' = Some (- 3)
   \<and> extract_request_params decimal_int
        \<lparr>params = [''user_id'' \<mapsto> ''1'', ''num_recommendations'' \<mapsto> ''-3''],
         get_json = Inl ValueError\<rparr> = Inr (PInt 1, IntCount 1, PBool True)
   \<and> extract_request_params decimal_int
        \<lparr>params = Map.empty, get_json = Inr (PDict [(''user_id'', PInt 1)])\<rparr> =
      Inr (PInt 1, IntCount 10, PBool True)
   \<and> extract_request_params decimal_int
        \<lparr>params = Map.empty,
         get_json = Inr (PDict [(''user_id'', PInt 1), (''num_recommendations'', PInt 0)])\<rparr> =
      Inr (PInt 1, IntCount 1, PBool True)
   \<and> (\<exists>uid ex. extract_request_params decimal_int
                   \<lparr>params = [''user_id'' \<mapsto> ''1'', ''num_recommendations'' \<mapsto> ''500''],
                    get_json = Inl ValueError\<rparr> = Inr (uid, IntCount (max 1 (min 500 100)), ex))
   \<and> (\<exists>uid ex. extract_request_params decimal_int
                   \<lparr>params = Map.empty,
                    get_json = Inr (PDict [(''user_id'', PInt 1),
                                           (''num_recommendations'', PInt 0)])\<rparr> =
                 Inr (uid, IntCount (max 1 (min 0 100)), ex))"
proof -
  let ?q0 = "\<lparr>params = [''user_id'' \<mapsto> ''1''], get_json = Inl ValueError\<rparr>"
  let ?q1 = "\<lparr>params = [''user_id'' \<mapsto> ''1'', ''num_recommendations'' \<mapsto> ''500''],
              get_json = Inl ValueError\<rparr>"
  let ?q2 = "\<lparr>params = [''user_id'' \<mapsto> ''1'', ''num_recommendations'' \<mapsto> ''-3''],
              get_json = Inl ValueError\<rparr>"
  let ?d0 = "[(''user_id'', PInt 1)]"
  let ?d1 = "[(''user_id'', PInt 1), (''num_recommendations'', PInt 0)]"
  let ?b0 = "\<lparr>params = Map.empty, get_json = Inr (PDict ?d0)\<rparr>"
  let ?b1 = "\<lparr>params = Map.empty, get_json = Inr (PDict ?d1)\<rparr>"
  have e0: "extract_request_params decimal_int ?q0 = Inr (PInt 1, IntCount 10, PBool True)"
    by code_simp
  have p1: "decimal_int ''500'' = Some 500"
    by code_simp
  have e1: "extract_request_params decimal_int ?q1 = Inr (PInt 1, IntCount 100, PBool True)"
    by code_simp
  have p2: "decimal_int ''-3'' = Some (- 3)"
    by code_simp
  have e2: "extract_request_params decimal_int ?q2 = Inr (PInt 1, IntCount 1, PBool True)"
    by code_simp
  have e3: "extract_request_params decimal_int ?b0 = Inr (PInt 1, IntCount 10, PBool True)"
    by code_simp
  have e4: "extract_request_params decimal_int ?b1 = Inr (PInt 1, IntCount 1, PBool True)"
    by code_simp
  have w1: "\<exists>uid ex. extract_request_params decimal_int ?q1 =
                       Inr (uid, IntCount (max 1 (min 500 100)), ex)"
    using num_recommendations_default_and_clamp [of ?q1 decimal_int ?d0] p1 by simp
  have w2: "\<exists>uid ex. extract_request_params decimal_int ?b1 =
                       Inr (uid, IntCount (max 1 (min 0 100)), ex)"
    using num_recommendations_default_and_clamp [of ?b1 decimal_int ?d1] by simp
  from e0 p1 e1 p2 e2 e3 e4 w1 w2 show ?thesis
    by simp
qed

section \<open>The health endpoint\<close>

text \<open>
  C8. A GET request to \<open>health\<close> is answered with status 200 and the body
  \<open>{status: "healthy", message, architecture}\<close>, whatever the request and whether the
  model is loaded (\<open>MODEL\<close> is \<open>Some\<close> model) or not (\<open>None\<close>).
\<close>

theorem health_always_healthy:
  "app int_str MODEL GET ''health'' req =
     Some \<lparr>body = HealthBody ''healthy'' ''Recommendation service is running''
                    ''Azure Function + Blob Storage Input Binding'',
           status_code = 200,
           headers = [(''Content-Type'', ''application/json'')]\<rparr>"
  by (simp add: app_def health_check_def)

section \<open>A count that is not a number\<close>

text \<open>
  C9. When the query string carries a \<open>num_recommendations\<close> that \<open>int()\<close> rejects,
  parameter extraction raises \<open>ValueError\<close> (before the default, the body and the clamp),
  and with the model loaded the response is the 500 error response of the internal-error
  handler: neither the 400 response nor a list of recommendations.
\<close>

theorem non_numeric_count_internal_error:
  assumes "params req ''num_recommendations'' = Some t" and "int_str t = None"
  shows "extract_request_params int_str req = Inl ValueError
       \<and> recommendation_function int_str (Some m) req =
           create_error_response ''Erreur interne du moteur de recommandation''
             (StrOf ValueError) 500
       \<and> status_code (recommendation_function int_str (Some m) req) = 500"
proof -
  from assms have raised: "extract_request_params int_str req = Inl ValueError"
    by (simp add: extract_request_params_def)
  then show ?thesis
    by (simp add: recommendation_function_def create_error_response_def)
qed

theorem non_numeric_count_internal_error_witness:
  "params \<lparr>params = [''user_id'' \<mapsto> ''1'', ''num_recommendations'' \<mapsto> ''abc''],
           get_json = Inl ValueError\<rparr> ''num_recommendations'' = Some ''abc''
   \<and> decimal_int ''abc'' = None
   \<and> extract_request_params decimal_int
        \<lparr>params = [''user_id'' \<mapsto> ''1'', ''num_recommendations'' \<mapsto> ''abc''],
         get_json = Inl ValueError\<rparr> = Inl ValueError
   \<and> status_code (recommendation_function decimal_int (Some example_model)
        \<lparr>params = [''user_id'' \<mapsto> ''1'', ''num_recommendations'' \<mapsto> ''abc''],
         get_json = Inl ValueError\<rparr>) = 500"
proof -
  let ?req = "\<lparr>params = [''user_id'' \<mapsto> ''1'', ''num_recommendations'' \<mapsto> ''abc''],
               get_json = Inl ValueError\<rparr>"
  have q: "params ?req ''num_recommendations'' = Some ''abc''"
    by simp
  have p: "decimal_int ''abc'' = None"
    by code_simp
  from non_numeric_count_internal_error
         [where req = ?req and t = "''abc''" and int_str = decimal_int and m = example_model]
       q p
  show ?thesis
    by (simp add: create_error_response_def)
qed

section \<open>The body is not read when the query string has a user_id\<close>

text \<open>
  C10, as stated, fails for a \<open>user_id\<close> that is present in the query string and empty:
  the body is read and its values replace those of the query string.
\<close>

theorem query_user_id_counterexample:
  "params \<lparr>params = [''user_id'' \<mapsto> []],
           get_json = Inr (PDict [(''user_id'', PInt 7), (''num_recommendations'', PInt 3),
                                  (''exclude_seen'', PBool False)])\<rparr> ''user_id'' = Some []
   \<and> extract_request_params decimal_int
        \<lparr>params = [''user_id'' \<mapsto> []],
         get_json = Inr (PDict [(''user_id'', PInt 7), (''num_recommendations'', PInt 3),
                                (''exclude_seen'', PBool False)])\<rparr> =
      Inr (PInt 7, IntCount 3, PBool False)
   \<and> extract_request_params decimal_int
        \<lparr>params = [''user_id'' \<mapsto> []], get_json = Inl ValueError\<rparr> =
      Inr (PStr [], IntCount 10, PBool True)"
proof -
  have a: "extract_request_params decimal_int
        \<lparr>params = [''user_id'' \<mapsto> []],
         get_json = Inr (PDict [(''user_id'', PInt 7), (''num_recommendations'', PInt 3),
                                (''exclude_seen'', PBool False)])\<rparr> =
      Inr (PInt 7, IntCount 3, PBool False)"
    by code_simp
  have b: "extract_request_params decimal_int
        \<lparr>params = [''user_id'' \<mapsto> []], get_json = Inl ValueError\<rparr> =
      Inr (PStr [], IntCount 10, PBool True)"
    by code_simp
  from a b show ?thesis
    by simp
qed

text \<open>
  C10, amended. Whenever the query string carries a non-empty \<open>user_id\<close>, the outcome of
  parameter extraction is the same for every body (\<open>get_json\<close> replaced by any \<open>j\<close>):
  \<open>ValueError\<close> if the query's \<open>num_recommendations\<close> is not a number, and otherwise
  the query's \<open>user_id\<close> (as an integer if \<open>int()\<close> reads it), the query's
  \<open>num_recommendations\<close> (or 10) clamped into [1, 100], and the query's \<open>exclude_seen\<close>
  (or \<open>'true'\<close>) compared with \<open>'true'\<close> in lower case.
\<close>

theorem query_user_id_ignores_body:
  assumes "params req ''user_id'' = Some s" and "s \<noteq> []"
  shows "extract_request_params int_str (req\<lparr>get_json := j\<rparr>) =
           extract_request_params int_str req
       \<and> extract_request_params int_str req =
           (case (case params req ''num_recommendations'' of
                    None \<Rightarrow> Some 10
                  | Some t \<Rightarrow> int_str t) of
              None \<Rightarrow> Inl ValueError
            | Some n \<Rightarrow>
                Inr (case int_str s of None \<Rightarrow> PStr s | Some k \<Rightarrow> PInt k,
                     IntCount (max 1 (min n 100)),
                     PBool (lower (case params req ''exclude_seen'' of
                                     None \<Rightarrow> ''true''
                                   | Some x \<Rightarrow> x) = ''true'')))"
proof -
  from assms have "params (req\<lparr>get_json := j\<rparr>) ''user_id'' = Some s"
    by simp
  from extract_with_query_user_id [OF this \<open>s \<noteq> []\<close>, of int_str]
    extract_with_query_user_id [OF assms, of int_str]
  show ?thesis
    by (simp split: option.splits)
qed

theorem query_user_id_ignores_body_witness:
  "params \<lparr>params = [''user_id'' \<mapsto> ''1'', ''num_recommendations'' \<mapsto> ''2'',
                     ''exclude_seen'' \<mapsto> ''FALSE''],
           get_json = Inl ValueError\<rparr> ''user_id'' = Some ''1''
   \<and> ''1'' \<noteq> []
   \<and> extract_request_params decimal_int
        \<lparr>params = [''user_id'' \<mapsto> ''1'', ''num_recommendations'' \<mapsto> ''2'',
                   ''exclude_seen'' \<mapsto> ''FALSE''],
         get_json = Inl ValueError\<rparr> = Inr (PInt 1, IntCount 2, PBool False)
   \<and> extract_request_params decimal_int
        \<lparr>params = [''user_id'' \<mapsto> ''1'', ''num_recommendations'' \<mapsto> ''2'',
                   ''exclude_seen'' \<mapsto> ''FALSE''],
         get_json = Inr (PDict [(''user_id'', PInt 7), (''num_recommendations'', PInt 3),
                                (''exclude_seen'', PBool True)])\<rparr> =
      Inr (PInt 1, IntCount 2, PBool False)"
proof -
  let ?req = "\<lparr>params = [''user_id'' \<mapsto> ''1'', ''num_recommendations'' \<mapsto> ''2'',
                         ''exclude_seen'' \<mapsto> ''FALSE''],
               get_json = Inl ValueError\<rparr>"
  let ?j = "Inr (PDict [(''user_id'', PInt 7), (''num_recommendations'', PInt 3),
                        (''exclude_seen'', PBool True)])"
  have q: "params ?req ''user_id'' = Some ''1''"
    by simp
  have ne: "''1'' \<noteq> []"
    by simp
  have e: "extract_request_params decimal_int ?req = Inr (PInt 1, IntCount 2, PBool False)"
    by code_simp
  from query_user_id_ignores_body [OF q ne, of decimal_int ?j] q e show ?thesis
    by simp
qed

end
